theory Spec2Isabelle
  imports Complex_Main
begin

section \<open>Bayesian linear regression of yield on soil rating: the script as functions\<close>

text \<open>
  The development follows \<^verbatim>\<open>examples/1_linear_regression.py\<close>.  Arrays of floating
  point numbers are read as arrays of real numbers; rounding is outside the model.
  The probabilistic-programming library and the random-number library are external to
  the script: their stochastic primitives enter as parameters (a record of functions),
  while the control flow around them (key splitting, the number of draws, which sites
  are observed) is written out.
\<close>

subsection \<open>Errors\<close>

datatype error = AssertionError | TypeError | NameError

subsection \<open>Version pin (line 34)\<close>

definition startswith :: "string \<Rightarrow> string \<Rightarrow> bool" where
  "startswith s p = (take (length p) s = p)"

definition assert_version :: "string \<Rightarrow> error + unit" where
  \<comment> \<open>\<^verbatim>\<open>assert numpyro.__version__.startswith("0.13.0")\<close>\<close>
  "assert_version v = (if startswith v ''0.13.0'' then Inr () else Inl AssertionError)"

subsection \<open>Scaling record (the \<^verbatim>\<open>scale_train\<close> dictionary)\<close>

record scale_train =
  bodenzahl_mean :: real
  bodenzahl_std :: real
  Winterweizen_yield_mean :: real
  Winterweizen_yield_std :: real

definition standardize :: "real \<Rightarrow> real \<Rightarrow> real \<Rightarrow> real" where
  \<comment> \<open>Modelled from the spec: the data loader \<^verbatim>\<open>util.load_yield_data.getData\<close> that
      standardizes the columns is not among the sources; the spec gives
      \<^verbatim>\<open>standardize(x) = (x - mean) / std\<close>.\<close>
  "standardize x mean std = (x - mean) / std"

definition x_range :: "scale_train \<Rightarrow> real list \<Rightarrow> real list" where
  \<comment> \<open>lines 181 and 229:
      \<^verbatim>\<open>x_range = x_range_scaled*scale_train['bodenzahl_std']+scale_train['bodenzahl_mean']\<close>\<close>
  "x_range sc x_range_scaled = map (\<lambda>x. x * bodenzahl_std sc + bodenzahl_mean sc) x_range_scaled"

definition y_hat :: "scale_train \<Rightarrow> real list \<Rightarrow> real list" where
  \<comment> \<open>lines 185 and 232:
      \<^verbatim>\<open>y_hat = y_hat_scaled*scale_train['Winterweizen_yield_std']+scale_train['Winterweizen_yield_mean']\<close>\<close>
  "y_hat sc y_hat_scaled =
     map (\<lambda>y. y * Winterweizen_yield_std sc + Winterweizen_yield_mean sc) y_hat_scaled"

definition rug_data :: "scale_train \<Rightarrow> real list \<Rightarrow> real list" where
  \<comment> \<open>lines 201 and 245:
      \<^verbatim>\<open>Soil*scale_train['bodenzahl_std']+scale_train['bodenzahl_mean']\<close>\<close>
  "rug_data sc Soil = map (\<lambda>x. x * bodenzahl_std sc + bodenzahl_mean sc) Soil"

subsection \<open>Arrays\<close>

text \<open>
  A value is a scalar or a one-dimensional array.  Multiplication broadcasts a scalar
  over an array and is elementwise on two arrays; the shape errors that the array
  library raises on operands of different lengths are outside the model (on every path
  of the script \<^verbatim>\<open>Soil\<close> is one-dimensional and \<^verbatim>\<open>beta\<close> is drawn from a
  distribution with scalar parameters).
\<close>

datatype array = Scalar real | Array1 "real list"

fun flat :: "array \<Rightarrow> real list" where
  "flat (Scalar x) = [x]"
| "flat (Array1 xs) = xs"

fun mul :: "array \<Rightarrow> array \<Rightarrow> array" where
  "mul (Scalar a) (Scalar b) = Scalar (a * b)"
| "mul (Array1 xs) (Scalar b) = Array1 (map (\<lambda>x. x * b) xs)"
| "mul (Scalar a) (Array1 ys) = Array1 (map (\<lambda>y. a * y) ys)"
| "mul (Array1 xs) (Array1 ys) = Array1 (map2 (*) xs ys)"

record ndarray2 =
  shape1 :: nat
  rows :: "real list list"

definition dot :: "real list \<Rightarrow> real list \<Rightarrow> real" where
  "dot r c = sum_list (map2 (*) r c)"

definition matmul :: "real list list \<Rightarrow> real list \<Rightarrow> real list" where
  \<comment> \<open>\<^verbatim>\<open>A @ c\<close> for a matrix given by its rows and a column vector\<close>
  "matmul A c = map (\<lambda>r. dot r c) A"

fun all_ge :: "real \<Rightarrow> array \<Rightarrow> bool" where
  "all_ge l (Scalar x) = (l \<le> x)"
| "all_ge l (Array1 xs) = list_all (\<lambda>x. l \<le> x) xs"

subsection \<open>Distributions and sample sites\<close>

datatype dist =
    Normal array array
  | Exponential array
  | StudentT array array array
  | LeftTruncatedDistribution dist real
  | Expand dist "nat list"

record site =
  site_name :: string
  site_fn :: dist
  site_value :: array
  is_observed :: bool

text \<open>
  The state of the effect handlers while a model runs: the key of the \<^verbatim>\<open>seed\<close>
  handler and the trace recorded so far.
\<close>

type_synonym 'k handlers = "'k \<times> site list"

type_synonym 'k model_run = "'k handlers \<Rightarrow> 'k handlers"

subsection \<open>The external libraries\<close>

text \<open>
  The libraries the script imports are not part of the repository.  Their stochastic
  and numerical primitives are parameters: the seed-to-key function, the hash that
  derives subkey \<open>i\<close> of a \<open>num\<close>-way split, the sampler of a distribution from a key,
  and the NUTS kernel (its initial state, its transition, and the value a state holds
  for a latent site).  Their drivers are modelled by their documented behaviour.
\<close>

record ('k, 's) library =
  PRNGKey :: "int \<Rightarrow> 'k"
  split_key :: "'k \<Rightarrow> nat \<Rightarrow> nat \<Rightarrow> 'k"
  dist_sample :: "dist \<Rightarrow> 'k \<Rightarrow> array"
  NUTS_init :: "'k model_run \<Rightarrow> 'k \<Rightarrow> 's"
  NUTS_sample :: "'k model_run \<Rightarrow> 's \<Rightarrow> 's"
  NUTS_z :: "'s \<Rightarrow> string \<Rightarrow> array"

definition random_split :: "('k, 's) library \<Rightarrow> 'k \<Rightarrow> nat \<Rightarrow> 'k list" where
  \<comment> \<open>\<^verbatim>\<open>random.split(key, num)\<close>: an array of \<open>num\<close> keys\<close>
  "random_split L key num = map (split_key L key num) [0..<num]"

definition numpyro_sample ::
  "('k, 's) library \<Rightarrow> string \<Rightarrow> dist \<Rightarrow> array option \<Rightarrow> 'k handlers \<Rightarrow> array \<times> 'k handlers" where
  \<comment> \<open>\<^verbatim>\<open>numpyro.sample(name, fn, obs=obs)\<close> under the \<^verbatim>\<open>seed\<close> and \<^verbatim>\<open>trace\<close>
      handlers: an observed site takes the observation as its value and uses no key; an
      unobserved site splits the handler's key and draws from \<open>fn\<close> with the subkey.\<close>
  "numpyro_sample L nm d obs st =
     (case obs of
        Some v \<Rightarrow>
          (v, (fst st, snd st @ [\<lparr>site_name = nm, site_fn = d, site_value = v, is_observed = True\<rparr>]))
      | None \<Rightarrow>
          (let ks = random_split L (fst st) 2;
               v = dist_sample L d (ks ! 1)
           in (v, (ks ! 0,
                   snd st @ [\<lparr>site_name = nm, site_fn = d, site_value = v, is_observed = False\<rparr>]))))"

subsection \<open>The four models (lines 65 to 93)\<close>

definition model :: "('k, 's) library \<Rightarrow> real list \<Rightarrow> real list option \<Rightarrow> 'k model_run" where
  "model L Soil Yield st0 =
     (let (beta, st1) = numpyro_sample L ''beta'' (Normal (Scalar 0) (Scalar 1)) None st0;
          (sigma, st2) = numpyro_sample L ''sigma'' (Exponential (Scalar 1)) None st1;
          (y, st3) = numpyro_sample L ''Yield'' (Normal (mul (Array1 Soil) beta) sigma)
                       (map_option Array1 Yield) st2
      in st3)"

definition model_matrix :: "('k, 's) library \<Rightarrow> ndarray2 \<Rightarrow> real list option \<Rightarrow> 'k model_run" where
  "model_matrix L X Y st0 =
     (let (beta, st1) = numpyro_sample L ''beta''
                          (Expand (Normal (Scalar 0) (Scalar 1)) [shape1 X]) None st0;
          (sigma, st2) = numpyro_sample L ''sigma'' (Exponential (Scalar 4)) None st1;
          (y, st3) = numpyro_sample L ''Y'' (Normal (Array1 (matmul (rows X) (flat beta))) sigma)
                       (map_option Array1 Y) st2
      in st3)"

definition model_sigma_b ::
  "('k, 's) library \<Rightarrow> real list \<Rightarrow> real \<Rightarrow> real list option \<Rightarrow> 'k model_run" where
  "model_sigma_b L Soil sigma_b Yield st0 =
     (let (beta, st1) = numpyro_sample L ''beta'' (Normal (Scalar 0) (Scalar sigma_b)) None st0;
          (sigma, st2) = numpyro_sample L ''sigma'' (Exponential (Scalar 1)) None st1;
          (y, st3) = numpyro_sample L ''Yield'' (Normal (mul (Array1 Soil) beta) sigma)
                       (map_option Array1 Yield) st2
      in st3)"

definition lowtrunc_scale :: "scale_train \<Rightarrow> real" where
  \<comment> \<open>line 84\<close>
  "lowtrunc_scale sc = (0 - Winterweizen_yield_mean sc) / Winterweizen_yield_std sc"

definition model_trunc ::
  "('k, 's) library \<Rightarrow> scale_train \<Rightarrow> real list \<Rightarrow> real \<Rightarrow> real list option \<Rightarrow> 'k model_run" where
  "model_trunc L sc Soil sigma_b Yield st0 =
     (let (beta, st1) = numpyro_sample L ''beta'' (Normal (Scalar 0) (Scalar sigma_b)) None st0;
          (sigma, st2) = numpyro_sample L ''sigma'' (Exponential (Scalar 1)) None st1;
          df = 5;
          (y, st3) = numpyro_sample L ''Yield''
                       (LeftTruncatedDistribution (StudentT (Scalar df) (mul (Array1 Soil) beta) sigma)
                          (lowtrunc_scale sc))
                       (map_option Array1 Yield) st2
      in st3)"

definition get_trace :: "'k model_run \<Rightarrow> 'k \<Rightarrow> site list" where
  \<comment> \<open>the trace of one run of a model seeded with a key\<close>
  "get_trace run key = snd (run (key, []))"

subsection \<open>Calling a model with keyword arguments\<close>

text \<open>
  The script passes \<^verbatim>\<open>Soil=\<close>, \<^verbatim>\<open>sigma_b=\<close> and, for inference, \<^verbatim>\<open>Yield=\<close>.  An
  omitted \<^verbatim>\<open>Yield\<close> takes the default \<^verbatim>\<open>None\<close> of the signature, so the omitted and
  the explicit \<^verbatim>\<open>None\<close> are the same value \<open>None\<close> here.  A function whose signature
  has no parameter of a passed name raises a \<^verbatim>\<open>TypeError\<close>.
\<close>

record kwargs =
  kw_Soil :: "real list"
  kw_sigma_b :: real
  kw_Yield :: "real list option"

datatype pyfun = F_model | F_model_matrix | F_model_sigma_b | F_model_trunc

fun call_model ::
  "('k, 's) library \<Rightarrow> scale_train \<Rightarrow> pyfun \<Rightarrow> kwargs \<Rightarrow> error + 'k model_run" where
  "call_model L sc F_model kw = Inl TypeError"
| "call_model L sc F_model_matrix kw = Inl TypeError"
| "call_model L sc F_model_sigma_b kw =
     Inr (model_sigma_b L (kw_Soil kw) (kw_sigma_b kw) (kw_Yield kw))"
| "call_model L sc F_model_trunc kw =
     Inr (model_trunc L sc (kw_Soil kw) (kw_sigma_b kw) (kw_Yield kw))"

subsection \<open>Prior predictive sampling and MCMC\<close>

type_synonym samples = "(string \<times> array list) list"

definition column :: "string \<Rightarrow> site list list \<Rightarrow> array list" where
  "column nm traces = concat (map (\<lambda>t. map site_value (filter (\<lambda>s. site_name s = nm) t)) traces)"

definition stack :: "site list list \<Rightarrow> samples" where
  \<comment> \<open>the per-draw traces stacked into one array of draws per site\<close>
  "stack traces =
     (case traces of
        [] \<Rightarrow> []
      | t # _ \<Rightarrow> map (\<lambda>nm. (nm, column nm traces)) (map site_name t))"

definition Predictive ::
  "('k, 's) library \<Rightarrow> (kwargs \<Rightarrow> error + 'k model_run) \<Rightarrow> nat \<Rightarrow> 'k \<Rightarrow> kwargs \<Rightarrow> error + samples" where
  \<comment> \<open>\<^verbatim>\<open>Predictive(model, num_samples=n)(rng_key, **kwargs)\<close> with no posterior samples:
      the key is split into \<open>n\<close> keys and the model is traced once under each.\<close>
  "Predictive L m n rng_key kw =
     (case m kw of
        Inl e \<Rightarrow> Inl e
      | Inr run \<Rightarrow> Inr (stack (map (get_trace run) (random_split L rng_key n))))"

record MCMC =
  num_samples :: nat
  num_warmup :: nat
  num_chains :: nat

record 's mcmc_state =
  chains :: "'s list list"
  latent :: "string list"

fun collect :: "nat \<Rightarrow> ('s \<Rightarrow> 's) \<Rightarrow> 's \<Rightarrow> 's list" where
  "collect 0 f s = []"
| "collect (Suc n) f s = (let s' = f s in s' # collect n f s')"

definition single_chain :: "('k, 's) library \<Rightarrow> MCMC \<Rightarrow> 'k model_run \<Rightarrow> 'k \<Rightarrow> 's list" where
  \<comment> \<open>one chain: the warm-up transitions are discarded, the next \<open>num_samples\<close> states are kept\<close>
  "single_chain L mc run key =
     collect (num_samples mc) (NUTS_sample L run)
       (((NUTS_sample L run) ^^ (num_warmup mc)) (NUTS_init L run key))"

definition MCMC_run ::
  "('k, 's) library \<Rightarrow> MCMC \<Rightarrow> (kwargs \<Rightarrow> error + 'k model_run) \<Rightarrow> 'k \<Rightarrow> kwargs \<Rightarrow> error + 's mcmc_state" where
  \<comment> \<open>\<^verbatim>\<open>mcmc.run(rng_key, **kwargs)\<close>: one key per chain; the latent sites are the
      unobserved sample sites of the model's trace.\<close>
  "MCMC_run L mc m rng_key kw =
     (case m kw of
        Inl e \<Rightarrow> Inl e
      | Inr run \<Rightarrow>
          Inr \<lparr>chains = map (single_chain L mc run) (random_split L rng_key (num_chains mc)),
               latent = map site_name (filter (\<lambda>s. \<not> is_observed s) (get_trace run rng_key))\<rparr>)"

definition get_samples :: "('k, 's) library \<Rightarrow> 's mcmc_state \<Rightarrow> samples" where
  \<comment> \<open>\<^verbatim>\<open>mcmc.get_samples()\<close>: the chains are concatenated\<close>
  "get_samples L st = map (\<lambda>nm. (nm, map (\<lambda>s. NUTS_z L s nm) (concat (chains st)))) (latent st)"

subsection \<open>The sampling loop (lines 103 to 138)\<close>

definition nPriorSamples :: nat where
  "nPriorSamples = 1000"

definition mcmc :: MCMC where
  \<comment> \<open>line 120\<close>
  "mcmc = \<lparr>num_samples = 800, num_warmup = 1000, num_chains = 2\<rparr>"

record result =
  post_samples :: samples
  prior_samples :: samples
  sigma_b :: real

fun sampling_loop ::
  "('k, 's) library \<Rightarrow> (kwargs \<Rightarrow> error + 'k model_run) \<Rightarrow> real list \<Rightarrow> real list \<Rightarrow> 'k
     \<Rightarrow> real list \<Rightarrow> error + result list" where
  "sampling_loop L m Soil Yield rng_key [] = Inr []"
| "sampling_loop L m Soil Yield rng_key (sb # rest) =
     (let ks = random_split L rng_key 2; rng_key1 = ks ! 0; rng_key_1 = ks ! 1 in
      case Predictive L m nPriorSamples rng_key_1
             \<lparr>kw_Soil = Soil, kw_sigma_b = sb, kw_Yield = None\<rparr> of
        Inl e \<Rightarrow> Inl e
      | Inr prior \<Rightarrow>
          (let ks' = random_split L rng_key1 2; rng_key2 = ks' ! 0; rng_key_2 = ks' ! 1 in
           case MCMC_run L mcmc m rng_key_2
                  \<lparr>kw_Soil = Soil, kw_sigma_b = sb, kw_Yield = Some Yield\<rparr> of
             Inl e \<Rightarrow> Inl e
           | Inr st \<Rightarrow>
               (case sampling_loop L m Soil Yield rng_key2 rest of
                  Inl e \<Rightarrow> Inl e
                | Inr lstRes \<Rightarrow>
                    Inr (\<lparr>post_samples = get_samples L st, prior_samples = prior, sigma_b = sb\<rparr>
                         # lstRes))))"

subsection \<open>The script: name bindings, version pin, sampling\<close>

text \<open>
  The module's global names that hold the model functions.  The four \<^verbatim>\<open>def\<close>
  statements bind each name to its function; line 100 then assigns to \<^verbatim>\<open>model\<close> the
  value of \<^verbatim>\<open>model_sigma_b\<close>.
\<close>

type_synonym globals = "string \<rightharpoonup> pyfun"

definition globals_after_defs :: globals where
  "globals_after_defs =
     [''model'' \<mapsto> F_model, ''model_matrix'' \<mapsto> F_model_matrix,
      ''model_sigma_b'' \<mapsto> F_model_sigma_b, ''model_trunc'' \<mapsto> F_model_trunc]"

definition assign :: "string \<Rightarrow> string \<Rightarrow> globals \<Rightarrow> globals" where
  \<comment> \<open>\<^verbatim>\<open>target = source\<close>\<close>
  "assign target source g = g(target := g source)"

definition globals_at_sampling :: globals where
  \<comment> \<open>line 100: \<^verbatim>\<open>model = model_sigma_b\<close>\<close>
  "globals_at_sampling = assign ''model'' ''model_sigma_b'' globals_after_defs"

definition script ::
  "('k, 's) library \<Rightarrow> (pyfun \<Rightarrow> kwargs \<Rightarrow> error + 'k model_run) \<Rightarrow> string \<Rightarrow> real list \<Rightarrow> real list
     \<Rightarrow> error + result list" where
  \<comment> \<open>the version pin, the seed of line 42, and the loop over the prior widths 1 and 5
      with whatever function the name \<^verbatim>\<open>model\<close> holds at that point; \<open>funs\<close> gives
      the behaviour of each function object\<close>
  "script L funs version Soil Yield =
     (case assert_version version of
        Inl e \<Rightarrow> Inl e
      | Inr u \<Rightarrow>
          (case globals_at_sampling ''model'' of
             None \<Rightarrow> Inl NameError
           | Some f \<Rightarrow> sampling_loop L (funs f) Soil Yield (PRNGKey L 1) [1, 5]))"

subsection \<open>Regression-line fans (lines 177 to 187 and 224 to 233)\<close>

definition linspace :: "real \<Rightarrow> real \<Rightarrow> nat \<Rightarrow> real list" where
  \<comment> \<open>\<^verbatim>\<open>np.linspace(start, stop, num)\<close>: \<open>num\<close> evenly spaced values, both ends included\<close>
  "linspace start stop num =
     map (\<lambda>i. start + real i * ((stop - start) / real (num - 1))) [0..<num]"

definition x_range_scaled :: "real list" where
  "x_range_scaled = linspace (-5) 5 100"

definition x_mean_scaled :: "real list \<Rightarrow> real" where
  \<comment> \<open>\<^verbatim>\<open>Soil.mean(axis=0)\<close>\<close>
  "x_mean_scaled Soil = sum_list Soil / real (length Soil)"

definition x_plot :: "real list \<Rightarrow> real list list" where
  \<comment> \<open>100 copies of the one-element row holding the mean, then column 0 overwritten
      with the grid\<close>
  "x_plot Soil = map2 (\<lambda>row x. row[0 := x]) (replicate 100 [x_mean_scaled Soil]) x_range_scaled"

definition index :: "'a list \<Rightarrow> nat \<Rightarrow> 'a option" where
  \<comment> \<open>\<open>None\<close> stands for an index beyond the draws, whose outcome is left to the array
      library; the script's collections hold 1000 and 1600 draws, so its indices below
      300 are in range\<close>
  "index xs i = (if i < length xs then Some (xs ! i) else None)"

definition regression_line :: "scale_train \<Rightarrow> real list \<Rightarrow> array \<Rightarrow> real list \<times> real list" where
  \<comment> \<open>one plotted line: the de-standardized grid against \<^verbatim>\<open>y_hat/10\<close>\<close>
  "regression_line sc Soil b =
     (x_range sc x_range_scaled,
      map (\<lambda>y. y / 10) (y_hat sc (matmul (x_plot Soil) (flat b))))"

fun regression_loop ::
  "scale_train \<Rightarrow> real list \<Rightarrow> array list \<Rightarrow> nat list \<Rightarrow> (real list \<times> real list) list option" where
  "regression_loop sc Soil betas [] = Some []"
| "regression_loop sc Soil betas (i # is) =
     (case index betas i of
        None \<Rightarrow> None
      | Some b \<Rightarrow> map_option ((#) (regression_line sc Soil b)) (regression_loop sc Soil betas is))"

definition regression_lines ::
  "scale_train \<Rightarrow> real list \<Rightarrow> samples \<Rightarrow> (real list \<times> real list) list option" where
  \<comment> \<open>\<^verbatim>\<open>for i in range(1,300)\<close> over \<^verbatim>\<open>samples['beta']\<close>\<close>
  "regression_lines sc Soil smp =
     (case map_of smp ''beta'' of
        None \<Rightarrow> None
      | Some betas \<Rightarrow> regression_loop sc Soil betas [1..<300])"

definition figure2_lines :: "scale_train \<Rightarrow> real list \<Rightarrow> result \<Rightarrow> (real list \<times> real list) list option" where
  "figure2_lines sc Soil res = regression_lines sc Soil (prior_samples res)"

definition figure3_lines :: "scale_train \<Rightarrow> real list \<Rightarrow> result \<Rightarrow> (real list \<times> real list) list option" where
  "figure3_lines sc Soil res = regression_lines sc Soil (post_samples res)"

subsection \<open>What one pass of the loop computes with \<^verbatim>\<open>model_sigma_b\<close>\<close>

definition prior_of :: "('k, 's) library \<Rightarrow> real list \<Rightarrow> real \<Rightarrow> 'k \<Rightarrow> samples" where
  \<comment> \<open>the prior predictive collection drawn with a given key\<close>
  "prior_of L Soil sb key =
     stack (map (get_trace (model_sigma_b L Soil sb None)) (random_split L key nPriorSamples))"

definition posterior_of ::
  "('k, 's) library \<Rightarrow> real list \<Rightarrow> real list \<Rightarrow> real \<Rightarrow> 'k \<Rightarrow> samples" where
  \<comment> \<open>the posterior collection of the MCMC run started with a given key\<close>
  "posterior_of L Soil Yield sb key =
     get_samples L
       \<lparr>chains = map (single_chain L mcmc (model_sigma_b L Soil sb (Some Yield)))
                    (random_split L key (num_chains mcmc)),
        latent = [''beta'', ''sigma'']\<rparr>"

definition carry :: "('k, 's) library \<Rightarrow> 'k \<Rightarrow> 'k" where
  \<comment> \<open>the key kept in \<^verbatim>\<open>rng_key\<close> by \<^verbatim>\<open>rng_key, rng_key_ = random.split(rng_key)\<close>\<close>
  "carry L key = split_key L key 2 0"

definition subkey :: "('k, 's) library \<Rightarrow> 'k \<Rightarrow> 'k" where
  \<comment> \<open>the key bound to \<^verbatim>\<open>rng_key_\<close> by the same statement\<close>
  "subkey L key = split_key L key 2 1"

definition shape_of :: "samples \<Rightarrow> (string \<times> nat) list" where
  \<comment> \<open>each site with its number of draws\<close>
  "shape_of smp = map (\<lambda>(nm, draws). (nm, length draws)) smp"

subsection \<open>A concrete library and scaling record for evaluation\<close>

text \<open>
  Keys are derivation paths (the seed, then one step per split), the sampler returns
  the value one scale above the location of a distribution, raised to the lower bound
  for a truncated one where it falls below, and the kernel counts its transitions.
\<close>

type_synonym path = "(nat \<times> nat) list"

fun add :: "array \<Rightarrow> array \<Rightarrow> array" where
  "add (Scalar a) (Scalar b) = Scalar (a + b)"
| "add (Array1 xs) (Scalar b) = Array1 (map (\<lambda>x. x + b) xs)"
| "add (Scalar a) (Array1 ys) = Array1 (map (\<lambda>y. a + y) ys)"
| "add (Array1 xs) (Array1 ys) = Array1 (map2 (+) xs ys)"

fun clip :: "real \<Rightarrow> array \<Rightarrow> array" where
  "clip l (Scalar x) = Scalar (max l x)"
| "clip l (Array1 xs) = Array1 (map (max l) xs)"

fun one_above :: "dist \<Rightarrow> array" where
  "one_above (Normal loc scale) = add loc scale"
| "one_above (Exponential rate) = Scalar 1"
| "one_above (StudentT df loc scale) = add loc scale"
| "one_above (LeftTruncatedDistribution d low) = clip low (one_above d)"
| "one_above (Expand d shape) =
     (case one_above d of
        Scalar x \<Rightarrow> Array1 (replicate (prod_list shape) x)
      | Array1 xs \<Rightarrow> Array1 xs)"

definition symbolic_library :: "(path, nat) library" where
  "symbolic_library =
     \<lparr>PRNGKey = (\<lambda>seed. [(0, nat seed)]),
      split_key = (\<lambda>key num i. key @ [(num, i)]),
      dist_sample = (\<lambda>d key. one_above d),
      NUTS_init = (\<lambda>run key. 0),
      NUTS_sample = (\<lambda>run s. Suc s),
      NUTS_z = (\<lambda>s nm. Scalar (real s))\<rparr>"

definition scale0 :: scale_train where
  "scale0 = \<lparr>bodenzahl_mean = 50, bodenzahl_std = 10,
             Winterweizen_yield_mean = 75, Winterweizen_yield_std = 12\<rparr>"

section \<open>Theorems\<close>

subsection \<open>Auxiliary facts\<close>

lemma length_random_split [simp]: "length (random_split L k n) = n"
  by (simp add: random_split_def)

lemma nth_random_split [simp]: "i < n \<Longrightarrow> random_split L k n ! i = split_key L k n i"
  by (simp add: random_split_def)

lemma numpyro_sample_None:
  "numpyro_sample L nm d None st =
     (dist_sample L d (subkey L (fst st)),
      (carry L (fst st),
       snd st @ [\<lparr>site_name = nm, site_fn = d,
                  site_value = dist_sample L d (subkey L (fst st)), is_observed = False\<rparr>]))"
  by (simp add: numpyro_sample_def Let_def carry_def subkey_def)

lemma numpyro_sample_Some:
  "numpyro_sample L nm d (Some v) st =
     (v, (fst st, snd st @ [\<lparr>site_name = nm, site_fn = d, site_value = v, is_observed = True\<rparr>]))"
  by (simp add: numpyro_sample_def)

lemma trace_model_sigma_b_prior:
  "get_trace (model_sigma_b L Soil sb None) k =
    (let beta = dist_sample L (Normal (Scalar 0) (Scalar sb)) (subkey L k);
         sigma = dist_sample L (Exponential (Scalar 1)) (subkey L (carry L k));
         d = Normal (mul (Array1 Soil) beta) sigma
     in [\<lparr>site_name = ''beta'', site_fn = Normal (Scalar 0) (Scalar sb), site_value = beta, is_observed = False\<rparr>,
         \<lparr>site_name = ''sigma'', site_fn = Exponential (Scalar 1), site_value = sigma, is_observed = False\<rparr>,
         \<lparr>site_name = ''Yield'', site_fn = d, site_value = dist_sample L d (subkey L (carry L (carry L k))), is_observed = False\<rparr>])"
  by (simp add: get_trace_def model_sigma_b_def numpyro_sample_None Let_def)

lemma trace_model_sigma_b_obs:
  "get_trace (model_sigma_b L Soil sb (Some Y)) k =
    (let beta = dist_sample L (Normal (Scalar 0) (Scalar sb)) (subkey L k);
         sigma = dist_sample L (Exponential (Scalar 1)) (subkey L (carry L k));
         d = Normal (mul (Array1 Soil) beta) sigma
     in [\<lparr>site_name = ''beta'', site_fn = Normal (Scalar 0) (Scalar sb), site_value = beta, is_observed = False\<rparr>,
         \<lparr>site_name = ''sigma'', site_fn = Exponential (Scalar 1), site_value = sigma, is_observed = False\<rparr>,
         \<lparr>site_name = ''Yield'', site_fn = d, site_value = Array1 Y, is_observed = True\<rparr>])"
  by (simp add: get_trace_def model_sigma_b_def numpyro_sample_None numpyro_sample_Some Let_def)

lemma names_model_sigma_b [simp]:
  "map site_name (get_trace (model_sigma_b L Soil sb Y) k) = [''beta'', ''sigma'', ''Yield'']"
  by (cases Y) (simp_all add: trace_model_sigma_b_prior trace_model_sigma_b_obs Let_def)

lemma length_column:
  assumes "\<And>t. t \<in> set ts \<Longrightarrow> length (filter (\<lambda>s. site_name s = nm) t) = 1"
  shows "length (column nm ts) = length ts"
  using assms by (induction ts) (simp_all add: column_def)

lemma length_collect [simp]: "length (collect n f s) = n"
  by (induction n arbitrary: s) (simp_all add: Let_def)

lemma stack_model_sigma_b:
  assumes "ks \<noteq> []"
  shows "stack (map (get_trace (model_sigma_b L Soil sb Y)) ks) =
     map (\<lambda>nm. (nm, column nm (map (get_trace (model_sigma_b L Soil sb Y)) ks)))
       [''beta'', ''sigma'', ''Yield'']"
proof -
  obtain k ks' where ks: "ks = k # ks'" using assms by (cases ks) auto
  show ?thesis unfolding ks stack_def by (simp only: list.map list.case names_model_sigma_b)
qed

lemma length_column_sigma_b:
  assumes "nm \<in> {''beta'', ''sigma'', ''Yield''}"
  shows "length (column nm (map (get_trace (model_sigma_b L Soil sb None)) ks)) = length ks"
proof -
  have "length (column nm (map (get_trace (model_sigma_b L Soil sb None)) ks))
      = length (map (get_trace (model_sigma_b L Soil sb None)) ks)"
  proof (rule length_column)
    fix u assume "u \<in> set (map (get_trace (model_sigma_b L Soil sb None)) ks)"
    then obtain k' where "u = get_trace (model_sigma_b L Soil sb None) k'" by auto
    then show "length (filter (\<lambda>s. site_name s = nm) u) = 1"
      using assms by (auto simp: trace_model_sigma_b_prior Let_def)
  qed
  then show ?thesis by simp
qed

lemma shape_prior_of:
  "shape_of (prior_of L Soil sb key) = [(''beta'', nPriorSamples), (''sigma'', nPriorSamples), (''Yield'', nPriorSamples)]"
proof -
  have ne: "random_split L key nPriorSamples \<noteq> []"
    by (simp add: random_split_def nPriorSamples_def)
  show ?thesis
    unfolding prior_of_def shape_of_def stack_model_sigma_b [OF ne]
    by (simp add: length_column_sigma_b)
qed

lemma shape_posterior_of:
  "shape_of (posterior_of L Soil Yield sb key) = [(''beta'', 1600), (''sigma'', 1600)]"
  by (simp add: posterior_of_def shape_of_def get_samples_def length_concat o_def
      single_chain_def mcmc_def sum_list_triv)

lemma Predictive_sigma_b:
  "Predictive L (call_model L sc F_model_sigma_b) nPriorSamples key
     \<lparr>kw_Soil = Soil, kw_sigma_b = sb, kw_Yield = None\<rparr> = Inr (prior_of L Soil sb key)"
  by (simp add: Predictive_def prior_of_def)

lemma MCMC_run_sigma_b:
  "\<exists>st. MCMC_run L mcmc (call_model L sc F_model_sigma_b) key
           \<lparr>kw_Soil = Soil, kw_sigma_b = sb, kw_Yield = Some Yield\<rparr> = Inr st
        \<and> get_samples L st = posterior_of L Soil Yield sb key"
  by (simp add: MCMC_run_def posterior_of_def get_samples_def trace_model_sigma_b_obs Let_def)

lemma globals_model [simp]: "globals_at_sampling ''model'' = Some F_model_sigma_b"
  by (simp add: globals_at_sampling_def assign_def globals_after_defs_def)

lemma loop_step:
  "sampling_loop L (call_model L sc F_model_sigma_b) Soil Yield key (sb # rest) =
     (case sampling_loop L (call_model L sc F_model_sigma_b) Soil Yield (carry L (carry L key)) rest of
        Inl e \<Rightarrow> Inl e
      | Inr lstRes \<Rightarrow>
          Inr (\<lparr>post_samples = posterior_of L Soil Yield sb (subkey L (carry L key)),
                prior_samples = prior_of L Soil sb (subkey L key), sigma_b = sb\<rparr> # lstRes))"
proof -
  obtain st where st: "MCMC_run L mcmc (call_model L sc F_model_sigma_b) (subkey L (carry L key))
           \<lparr>kw_Soil = Soil, kw_sigma_b = sb, kw_Yield = Some Yield\<rparr> = Inr st"
     and gs: "get_samples L st = posterior_of L Soil Yield sb (subkey L (carry L key))"
    using MCMC_run_sigma_b [of L sc "subkey L (carry L key)" Soil sb Yield] by auto
  have k1: "random_split L key 2 ! 0 = carry L key" "random_split L key 2 ! 1 = subkey L key"
    by (simp_all add: carry_def subkey_def)
  have k2: "random_split L (carry L key) 2 ! 0 = carry L (carry L key)"
    "random_split L (carry L key) 2 ! 1 = subkey L (carry L key)"
    by (simp_all add: carry_def subkey_def)
  show ?thesis
    by (simp only: sampling_loop.simps Let_def k1 k2 Predictive_sigma_b sum.case st gs)
qed

lemma script_unrolled:
  "script L (call_model L sc) v Soil Yield =
     (if startswith v ''0.13.0'' then
        Inr [\<lparr>post_samples = posterior_of L Soil Yield 1 (subkey L (carry L (PRNGKey L 1))),
              prior_samples = prior_of L Soil 1 (subkey L (PRNGKey L 1)), sigma_b = 1\<rparr>,
             \<lparr>post_samples = posterior_of L Soil Yield 5
                               (subkey L (carry L (carry L (carry L (PRNGKey L 1))))),
              prior_samples = prior_of L Soil 5 (subkey L (carry L (carry L (PRNGKey L 1)))),
              sigma_b = 5\<rparr>]
      else Inl AssertionError)"
  by (simp add: script_def assert_version_def loop_step del: sampling_loop.simps(2))

lemma trace_model:
  "get_trace (model L Soil Y) k =
    (let beta = dist_sample L (Normal (Scalar 0) (Scalar 1)) (subkey L k);
         sigma = dist_sample L (Exponential (Scalar 1)) (subkey L (carry L k));
         d = Normal (mul (Array1 Soil) beta) sigma
     in [\<lparr>site_name = ''beta'', site_fn = Normal (Scalar 0) (Scalar 1), site_value = beta, is_observed = False\<rparr>,
         \<lparr>site_name = ''sigma'', site_fn = Exponential (Scalar 1), site_value = sigma, is_observed = False\<rparr>,
         \<lparr>site_name = ''Yield'', site_fn = d,
          site_value = (case Y of None \<Rightarrow> dist_sample L d (subkey L (carry L (carry L k))) | Some y \<Rightarrow> Array1 y),
          is_observed = (Y \<noteq> None)\<rparr>])"
  by (cases Y) (simp_all add: get_trace_def model_def numpyro_sample_None numpyro_sample_Some Let_def)

lemma trace_model_sigma_b:
  "get_trace (model_sigma_b L Soil sb Y) k =
    (let beta = dist_sample L (Normal (Scalar 0) (Scalar sb)) (subkey L k);
         sigma = dist_sample L (Exponential (Scalar 1)) (subkey L (carry L k));
         d = Normal (mul (Array1 Soil) beta) sigma
     in [\<lparr>site_name = ''beta'', site_fn = Normal (Scalar 0) (Scalar sb), site_value = beta, is_observed = False\<rparr>,
         \<lparr>site_name = ''sigma'', site_fn = Exponential (Scalar 1), site_value = sigma, is_observed = False\<rparr>,
         \<lparr>site_name = ''Yield'', site_fn = d,
          site_value = (case Y of None \<Rightarrow> dist_sample L d (subkey L (carry L (carry L k))) | Some y \<Rightarrow> Array1 y),
          is_observed = (Y \<noteq> None)\<rparr>])"
  by (cases Y) (simp_all add: trace_model_sigma_b_prior trace_model_sigma_b_obs Let_def)

lemma trace_model_trunc:
  "get_trace (model_trunc L sc Soil sb Y) k =
    (let beta = dist_sample L (Normal (Scalar 0) (Scalar sb)) (subkey L k);
         sigma = dist_sample L (Exponential (Scalar 1)) (subkey L (carry L k));
         d = LeftTruncatedDistribution (StudentT (Scalar 5) (mul (Array1 Soil) beta) sigma)
               (lowtrunc_scale sc)
     in [\<lparr>site_name = ''beta'', site_fn = Normal (Scalar 0) (Scalar sb), site_value = beta, is_observed = False\<rparr>,
         \<lparr>site_name = ''sigma'', site_fn = Exponential (Scalar 1), site_value = sigma, is_observed = False\<rparr>,
         \<lparr>site_name = ''Yield'', site_fn = d,
          site_value = (case Y of None \<Rightarrow> dist_sample L d (subkey L (carry L (carry L k))) | Some y \<Rightarrow> Array1 y),
          is_observed = (Y \<noteq> None)\<rparr>])"
  by (cases Y) (simp_all add: get_trace_def model_trunc_def numpyro_sample_None numpyro_sample_Some Let_def)

lemma trace_model_matrix:
  "get_trace (model_matrix L X Y) k =
    (let beta = dist_sample L (Expand (Normal (Scalar 0) (Scalar 1)) [shape1 X]) (subkey L k);
         sigma = dist_sample L (Exponential (Scalar 4)) (subkey L (carry L k));
         d = Normal (Array1 (matmul (rows X) (flat beta))) sigma
     in [\<lparr>site_name = ''beta'', site_fn = Expand (Normal (Scalar 0) (Scalar 1)) [shape1 X], site_value = beta, is_observed = False\<rparr>,
         \<lparr>site_name = ''sigma'', site_fn = Exponential (Scalar 4), site_value = sigma, is_observed = False\<rparr>,
         \<lparr>site_name = ''Y'', site_fn = d,
          site_value = (case Y of None \<Rightarrow> dist_sample L d (subkey L (carry L (carry L k))) | Some y \<Rightarrow> Array1 y),
          is_observed = (Y \<noteq> None)\<rparr>])"
  by (cases Y) (simp_all add: get_trace_def model_matrix_def numpyro_sample_None numpyro_sample_Some Let_def)

lemma all_ge_clip: "all_ge l (clip l a)"
  by (cases a) (simp_all add: list_all_iff)

lemma symbolic_truncation:
  "\<forall>d low key. all_ge low (dist_sample symbolic_library (LeftTruncatedDistribution d low) key)"
  by (simp add: symbolic_library_def all_ge_clip)

lemma script_via_globals:
  "script L funs v Soil Yield =
       (case assert_version v of
          Inl e \<Rightarrow> Inl e
        | Inr u \<Rightarrow> sampling_loop L (funs F_model_sigma_b) Soil Yield (PRNGKey L 1) [1, 5])"
  unfolding script_def by (simp only: globals_model option.case)

lemma length_linspace [simp]: "length (linspace a b n) = n"
  by (simp add: linspace_def)

lemma length_x_range_scaled [simp]: "length x_range_scaled = 100"
  by (simp add: x_range_scaled_def)

lemma x_range_scaled_eq: "x_range_scaled = map (\<lambda>j. - 5 + real j * (10 / 99)) [0..<100]"
  by (simp add: x_range_scaled_def linspace_def)

lemma x_range_scaled_ends: "hd x_range_scaled = - 5" "last x_range_scaled = 5"
proof -
  have ne: "[0..<100] \<noteq> []" by simp
  show "hd x_range_scaled = - 5"
    unfolding x_range_scaled_eq by (simp add: hd_map [OF ne] hd_upt del: upt_Suc)
  have "x_range_scaled \<noteq> []" using length_x_range_scaled by fastforce
  then have "last x_range_scaled = x_range_scaled ! 99"
    by (simp add: last_conv_nth)
  also have "\<dots> = 5" unfolding x_range_scaled_eq by simp
  finally show "last x_range_scaled = 5" .
qed

lemma x_plot_eq: "x_plot Soil = map (\<lambda>x. [x]) x_range_scaled"
proof (rule nth_equalityI)
  show "length (x_plot Soil) = length (map (\<lambda>x. [x]) x_range_scaled)"
    by (simp add: x_plot_def)
next
  fix i assume "i < length (x_plot Soil)"
  then have i: "i < 100" by (simp add: x_plot_def)
  then show "x_plot Soil ! i = map (\<lambda>x. [x]) x_range_scaled ! i"
    by (simp add: x_plot_def)
qed

lemma regression_line_Scalar:
  "regression_line sc Soil (Scalar b) =
     (map (\<lambda>x. x * bodenzahl_std sc + bodenzahl_mean sc) x_range_scaled,
      map (\<lambda>x. (x * b * Winterweizen_yield_std sc + Winterweizen_yield_mean sc) / 10)
        x_range_scaled)"
  by (simp add: regression_line_def x_range_def y_hat_def matmul_def dot_def x_plot_eq o_def)

lemma regression_loop_Some:
  "\<forall>i\<in>set js. i < length betas \<Longrightarrow>
     regression_loop sc Soil betas js = Some (map (\<lambda>i. regression_line sc Soil (betas ! i)) js)"
  by (induction js) (simp_all add: index_def)

lemma regression_loop_None:
  "\<exists>i\<in>set js. \<not> i < length betas \<Longrightarrow> regression_loop sc Soil betas js = None"
  by (induction js) (auto simp: index_def split: option.splits)

lemma regression_loop_range:
  "regression_loop sc Soil betas [1..<300] =
     (if 300 \<le> length betas
      then Some (map (\<lambda>i. regression_line sc Soil (betas ! i)) [1..<300]) else None)"
proof (cases "300 \<le> length betas")
  case True
  then have "\<forall>i\<in>set [1..<300]. i < length betas" by auto
  then show ?thesis using True by (simp only: regression_loop_Some if_True)
next
  case False
  then have "\<exists>i\<in>set [1..<300]. \<not> i < length betas"
    by (intro bexI [of _ 299]) auto
  then show ?thesis using False by (simp only: regression_loop_None if_False)
qed

lemma map_of_prior_of:
  "map_of (prior_of L Soil sb key) ''beta''
     = Some (column ''beta'' (map (get_trace (model_sigma_b L Soil sb None))
               (random_split L key nPriorSamples)))"
proof -
  have ne: "random_split L key nPriorSamples \<noteq> []"
    by (simp add: random_split_def nPriorSamples_def)
  show ?thesis
    unfolding prior_of_def stack_model_sigma_b [OF ne] by simp
qed

lemma figure2_count:
  "map_option length (regression_lines sc Soil (prior_of L Soil sb key)) = Some 299"
proof -
  have "length (column ''beta'' (map (get_trace (model_sigma_b L Soil sb None))
               (random_split L key nPriorSamples))) = 1000"
    by (simp add: length_column_sigma_b nPriorSamples_def)
  then show ?thesis
    unfolding regression_lines_def map_of_prior_of option.case regression_loop_range
    by simp
qed

lemma figure3_count:
  "map_option length (regression_lines sc Soil (posterior_of L Soil Yield sb key)) = Some 299"
proof -
  have "length (concat (map (single_chain L mcmc (model_sigma_b L Soil sb (Some Yield)))
                    (random_split L key (num_chains mcmc)))) = 1600"
    by (simp add: length_concat o_def single_chain_def mcmc_def sum_list_triv)
  then have len: "300 \<le> length (map (\<lambda>s. NUTS_z L s ''beta'')
      (concat (map (single_chain L mcmc (model_sigma_b L Soil sb (Some Yield)))
                    (random_split L key (num_chains mcmc)))))"
    by simp
  have "map_of (posterior_of L Soil Yield sb key) ''beta''
      = Some (map (\<lambda>s. NUTS_z L s ''beta'')
      (concat (map (single_chain L mcmc (model_sigma_b L Soil sb (Some Yield)))
                    (random_split L key (num_chains mcmc)))))"
    by (simp add: posterior_of_def get_samples_def)
  then show ?thesis
    unfolding regression_lines_def option.case regression_loop_range using len
    by simp
qed

lemma regression_lines_eq:
  "regression_lines sc Soil smp =
     (case map_of smp ''beta'' of
        None \<Rightarrow> None
      | Some betas \<Rightarrow>
          if 300 \<le> length betas
          then Some (map (\<lambda>i. regression_line sc Soil (betas ! i)) [1..<300]) else None)"
  unfolding regression_lines_def regression_loop_range ..

subsection \<open>Claims\<close>

text \<open>
  C9. De-standardization undoes standardization: for every value and every (mean, std)
  pair of the scaling record with a non-zero std, multiplying the standardized value by
  std and adding mean gives the value back (exactly, over the reals).  The three places
  where the script converts back to natural units (the soil grid, the predicted yields
  and the rug data) all apply this same inverse, each with the pair of its own variable.
\<close>

theorem destandardize_roundtrip:
  assumes "bodenzahl_std sc \<noteq> 0" and "Winterweizen_yield_std sc \<noteq> 0"
  shows "x_range sc (map (\<lambda>x. standardize x (bodenzahl_mean sc) (bodenzahl_std sc)) xs) = xs
       \<and> rug_data sc (map (\<lambda>x. standardize x (bodenzahl_mean sc) (bodenzahl_std sc)) xs) = xs
       \<and> y_hat sc (map (\<lambda>y. standardize y (Winterweizen_yield_mean sc) (Winterweizen_yield_std sc)) ys) = ys"
proof -
  have inv: "(v - m) / s * s + m = v" if "s \<noteq> 0" for v m s :: real
    using that by simp
  have "map (\<lambda>x. standardize x (bodenzahl_mean sc) (bodenzahl_std sc) * bodenzahl_std sc
          + bodenzahl_mean sc) xs = xs"
    unfolding standardize_def using inv [OF assms(1)] by (simp add: map_idI)
  moreover have "map (\<lambda>y. standardize y (Winterweizen_yield_mean sc) (Winterweizen_yield_std sc)
          * Winterweizen_yield_std sc + Winterweizen_yield_mean sc) ys = ys"
    unfolding standardize_def using inv [OF assms(2)] by (simp add: map_idI)
  ultimately show ?thesis
    by (simp add: x_range_def rug_data_def y_hat_def o_def)
qed

theorem destandardize_roundtrip_witness:
  "x_range \<lparr>bodenzahl_mean = 50, bodenzahl_std = 10,
            Winterweizen_yield_mean = 75, Winterweizen_yield_std = 12\<rparr>
     (map (\<lambda>x. standardize x 50 10) [30, 55, 70]) = [30, 55, 70]
   \<and> rug_data \<lparr>bodenzahl_mean = 50, bodenzahl_std = 10,
            Winterweizen_yield_mean = 75, Winterweizen_yield_std = 12\<rparr>
     (map (\<lambda>x. standardize x 50 10) [30, 55, 70]) = [30, 55, 70]
   \<and> y_hat \<lparr>bodenzahl_mean = 50, bodenzahl_std = 10,
            Winterweizen_yield_mean = 75, Winterweizen_yield_std = 12\<rparr>
     (map (\<lambda>y. standardize y 75 12) [0, 81]) = [0, 81]"
  using destandardize_roundtrip [of "\<lparr>bodenzahl_mean = 50, bodenzahl_std = 10,
            Winterweizen_yield_mean = 75, Winterweizen_yield_std = 12\<rparr>" "[30, 55, 70]" "[0, 81]"]
  by simp

text \<open>
  C2. The MCMC object of the loop is configured with 2 chains, 1000 warm-up iterations
  and 800 retained samples per chain.  A run of it on \<^verbatim>\<open>model_sigma_b\<close>, for any prior
  width, any key and any data, keeps 800 states in each of the two chains, and
  \<^verbatim>\<open>get_samples\<close> returns 2 * 800 = 1600 draws for each of the latent sites
  \<^verbatim>\<open>beta\<close> and \<^verbatim>\<open>sigma\<close>.  The script either stops at the version pin or returns
  the two result units for the widths 1 and 5, each with 1600 posterior draws per site.
\<close>

theorem posterior_draw_count:
  "num_chains mcmc = 2 \<and> num_warmup mcmc = 1000 \<and> num_samples mcmc = 800
   \<and> (case MCMC_run L mcmc (call_model L sc F_model_sigma_b) key
              \<lparr>kw_Soil = Soil, kw_sigma_b = sb, kw_Yield = Some Yield\<rparr> of
         Inl e \<Rightarrow> False
       | Inr st \<Rightarrow> map length (chains st) = [800, 800]
                  \<and> shape_of (get_samples L st) = [(''beta'', 1600), (''sigma'', 1600)])
   \<and> (case script L (call_model L sc) v Soil Yield of
         Inl e \<Rightarrow> e = AssertionError
       | Inr lstRes \<Rightarrow>
           map sigma_b lstRes = [1, 5]
           \<and> map (\<lambda>r. shape_of (post_samples r)) lstRes =
               [[(''beta'', 1600), (''sigma'', 1600)], [(''beta'', 1600), (''sigma'', 1600)]])"
proof -
  have cfg: "num_chains mcmc = 2 \<and> num_warmup mcmc = 1000 \<and> num_samples mcmc = 800"
    by (simp add: mcmc_def)
  obtain st where st: "MCMC_run L mcmc (call_model L sc F_model_sigma_b) key
           \<lparr>kw_Soil = Soil, kw_sigma_b = sb, kw_Yield = Some Yield\<rparr> = Inr st"
     and gs: "get_samples L st = posterior_of L Soil Yield sb key"
    using MCMC_run_sigma_b [of L sc key Soil sb Yield] by auto
  have ch: "map length (chains st) = [800, 800]"
    using st by (auto simp: MCMC_run_def single_chain_def mcmc_def random_split_def
        numeral_2_eq_2)
  have run: "(case MCMC_run L mcmc (call_model L sc F_model_sigma_b) key
              \<lparr>kw_Soil = Soil, kw_sigma_b = sb, kw_Yield = Some Yield\<rparr> of
         Inl e \<Rightarrow> False
       | Inr st \<Rightarrow> map length (chains st) = [800, 800]
                  \<and> shape_of (get_samples L st) = [(''beta'', 1600), (''sigma'', 1600)])"
    by (simp add: st ch gs shape_posterior_of)
  have scr: "(case script L (call_model L sc) v Soil Yield of
         Inl e \<Rightarrow> e = AssertionError
       | Inr lstRes \<Rightarrow>
           map sigma_b lstRes = [1, 5]
           \<and> map (\<lambda>r. shape_of (post_samples r)) lstRes =
               [[(''beta'', 1600), (''sigma'', 1600)], [(''beta'', 1600), (''sigma'', 1600)]])"
    by (simp add: script_unrolled shape_posterior_of)
  from cfg run scr show ?thesis by blast
qed

text \<open>
  C3. Prior predictive sampling with \<^verbatim>\<open>Yield\<close> omitted returns exactly
  \<^verbatim>\<open>nPriorSamples\<close> = 1000 draws for each of the sites \<^verbatim>\<open>beta\<close>, \<^verbatim>\<open>sigma\<close> and
  \<^verbatim>\<open>Yield\<close>, for any prior width and key; so do both result units of the script.  The
  prior collections of the script do not depend on the observed yields: two runs that
  differ only in \<^verbatim>\<open>Yield\<close> return the same prior collections.
\<close>

theorem prior_draw_count:
  "nPriorSamples = 1000
   \<and> (case Predictive L (call_model L sc F_model_sigma_b) nPriorSamples key
              \<lparr>kw_Soil = Soil, kw_sigma_b = sb, kw_Yield = None\<rparr> of
         Inl e \<Rightarrow> False
       | Inr prior \<Rightarrow>
           shape_of prior = [(''beta'', 1000), (''sigma'', 1000), (''Yield'', 1000)])
   \<and> (case script L (call_model L sc) v Soil Yield of
         Inl e \<Rightarrow> e = AssertionError
       | Inr lstRes \<Rightarrow>
           map (\<lambda>r. shape_of (prior_samples r)) lstRes =
             [[(''beta'', 1000), (''sigma'', 1000), (''Yield'', 1000)],
              [(''beta'', 1000), (''sigma'', 1000), (''Yield'', 1000)]])
   \<and> map_sum id (map prior_samples) (script L (call_model L sc) v Soil Yield)
       = map_sum id (map prior_samples) (script L (call_model L sc) v Soil Yield')"
proof -
  have n: "nPriorSamples = 1000" by (simp add: nPriorSamples_def)
  have sh: "shape_of (prior_of L Soil w k) = [(''beta'', 1000), (''sigma'', 1000), (''Yield'', 1000)]"
    for w k using shape_prior_of [of L Soil w k] by (simp add: n)
  have p: "(case Predictive L (call_model L sc F_model_sigma_b) nPriorSamples key
              \<lparr>kw_Soil = Soil, kw_sigma_b = sb, kw_Yield = None\<rparr> of
         Inl e \<Rightarrow> False
       | Inr prior \<Rightarrow>
           shape_of prior = [(''beta'', 1000), (''sigma'', 1000), (''Yield'', 1000)])"
    by (simp add: Predictive_sigma_b sh)
  have s: "(case script L (call_model L sc) v Soil Yield of
         Inl e \<Rightarrow> e = AssertionError
       | Inr lstRes \<Rightarrow>
           map (\<lambda>r. shape_of (prior_samples r)) lstRes =
             [[(''beta'', 1000), (''sigma'', 1000), (''Yield'', 1000)],
              [(''beta'', 1000), (''sigma'', 1000), (''Yield'', 1000)]])"
    by (simp add: script_unrolled sh)
  have i: "map_sum id (map prior_samples) (script L (call_model L sc) v Soil Yield)
       = map_sum id (map prior_samples) (script L (call_model L sc) v Soil Yield')"
    by (simp add: script_unrolled)
  from n p s i show ?thesis by blast
qed

text \<open>
  C7. The version pin fails with an assertion error exactly when the reported version
  does not start with \<^verbatim>\<open>0.13.0\<close>, and the script ends in an assertion error exactly in
  that case.  Nothing else is handled: when the version passes, a fault raised by the
  model call comes out of the script unchanged, and when it does not pass, nothing after
  the pin runs.
\<close>

theorem version_assertion:
  "(assert_version v = Inl AssertionError) = (\<not> startswith v ''0.13.0'')
   \<and> (script L (call_model L sc) v Soil Yield = Inl AssertionError) = (\<not> startswith v ''0.13.0'')
   \<and> script L (\<lambda>f kw. Inl e) v Soil Yield
        = (if startswith v ''0.13.0'' then Inl e else Inl AssertionError)"
proof -
  have a: "(assert_version v = Inl AssertionError) = (\<not> startswith v ''0.13.0'')"
    by (simp add: assert_version_def)
  have b: "(script L (call_model L sc) v Soil Yield = Inl AssertionError)
            = (\<not> startswith v ''0.13.0'')"
    by (simp add: script_unrolled)
  have c: "script L (\<lambda>f kw. Inl e) v Soil Yield
        = (if startswith v ''0.13.0'' then Inl e else Inl AssertionError)"
    by (simp add: script_via_globals assert_version_def Predictive_def Let_def)
  from a b c show ?thesis by blast
qed


text \<open>
  C5. A run of \<^verbatim>\<open>model\<close> records exactly three sample sites: \<^verbatim>\<open>beta\<close> with the
  distribution Normal(0, 1), \<^verbatim>\<open>sigma\<close> with Exponential(1), and \<^verbatim>\<open>Yield\<close> with
  Normal(Soil * beta, sigma), where beta and sigma are the values of the first two
  sites.  A run of \<^verbatim>\<open>model_sigma_b\<close> records the same sites with Normal(0, sigma_b) for
  \<^verbatim>\<open>beta\<close>, and \<^verbatim>\<open>model\<close> is \<^verbatim>\<open>model_sigma_b\<close> at sigma_b = 1.
\<close>

theorem model_joint_distribution:
  "(let tr = get_trace (model L Soil Y) k; beta = site_value (tr ! 0); sigma = site_value (tr ! 1)
    in map site_name tr = [''beta'', ''sigma'', ''Yield'']
       \<and> map site_fn tr = [Normal (Scalar 0) (Scalar 1), Exponential (Scalar 1),
                            Normal (mul (Array1 Soil) beta) sigma])
   \<and> (let tr = get_trace (model_sigma_b L Soil sb Y) k; beta = site_value (tr ! 0);
          sigma = site_value (tr ! 1)
      in map site_name tr = [''beta'', ''sigma'', ''Yield'']
         \<and> map site_fn tr = [Normal (Scalar 0) (Scalar sb), Exponential (Scalar 1),
                              Normal (mul (Array1 Soil) beta) sigma])
   \<and> model L Soil Y = model_sigma_b L Soil 1 Y"
proof -
  have a: "(let tr = get_trace (model L Soil Y) k; beta = site_value (tr ! 0); sigma = site_value (tr ! 1)
    in map site_name tr = [''beta'', ''sigma'', ''Yield'']
       \<and> map site_fn tr = [Normal (Scalar 0) (Scalar 1), Exponential (Scalar 1),
                            Normal (mul (Array1 Soil) beta) sigma])"
    by (simp add: trace_model Let_def)
  have b: "(let tr = get_trace (model_sigma_b L Soil sb Y) k; beta = site_value (tr ! 0);
          sigma = site_value (tr ! 1)
      in map site_name tr = [''beta'', ''sigma'', ''Yield'']
         \<and> map site_fn tr = [Normal (Scalar 0) (Scalar sb), Exponential (Scalar 1),
                              Normal (mul (Array1 Soil) beta) sigma])"
    by (simp add: trace_model_sigma_b Let_def)
  have c: "model L Soil Y = model_sigma_b L Soil 1 Y"
    by (rule ext) (simp add: model_def model_sigma_b_def)
  from a b c show ?thesis by blast
qed

text \<open>
  C4. In each of the four models the response site (\<^verbatim>\<open>Yield\<close>, or \<^verbatim>\<open>Y\<close> in
  \<^verbatim>\<open>model_matrix\<close>) is the third site, after the never observed \<^verbatim>\<open>beta\<close> and
  \<^verbatim>\<open>sigma\<close>.  With the response argument absent (\<open>None\<close>) the site is unobserved and
  its value is a draw from the site's distribution, a prior predictive sample; with the
  response given the site is observed and its value is the given response.
\<close>

theorem response_site_observation:
  "(let tr = get_trace (model L Soil Y) k
    in map site_name tr = [''beta'', ''sigma'', ''Yield'']
       \<and> map is_observed tr = [False, False, Y \<noteq> None]
       \<and> site_value (tr ! 2) =
           (case Y of
              None \<Rightarrow> dist_sample L (site_fn (tr ! 2)) (subkey L (carry L (carry L k)))
            | Some y \<Rightarrow> Array1 y))
   \<and> (let tr = get_trace (model_matrix L X Y) k
      in map site_name tr = [''beta'', ''sigma'', ''Y'']
         \<and> map is_observed tr = [False, False, Y \<noteq> None]
         \<and> site_value (tr ! 2) =
             (case Y of
                None \<Rightarrow> dist_sample L (site_fn (tr ! 2)) (subkey L (carry L (carry L k)))
              | Some y \<Rightarrow> Array1 y))
   \<and> (let tr = get_trace (model_sigma_b L Soil sb Y) k
      in map site_name tr = [''beta'', ''sigma'', ''Yield'']
         \<and> map is_observed tr = [False, False, Y \<noteq> None]
         \<and> site_value (tr ! 2) =
             (case Y of
                None \<Rightarrow> dist_sample L (site_fn (tr ! 2)) (subkey L (carry L (carry L k)))
              | Some y \<Rightarrow> Array1 y))
   \<and> (let tr = get_trace (model_trunc L sc Soil sb Y) k
      in map site_name tr = [''beta'', ''sigma'', ''Yield'']
         \<and> map is_observed tr = [False, False, Y \<noteq> None]
         \<and> site_value (tr ! 2) =
             (case Y of
                None \<Rightarrow> dist_sample L (site_fn (tr ! 2)) (subkey L (carry L (carry L k)))
              | Some y \<Rightarrow> Array1 y))"
proof -
  have a: "(let tr = get_trace (model L Soil Y) k
    in map site_name tr = [''beta'', ''sigma'', ''Yield'']
       \<and> map is_observed tr = [False, False, Y \<noteq> None]
       \<and> site_value (tr ! 2) =
           (case Y of
              None \<Rightarrow> dist_sample L (site_fn (tr ! 2)) (subkey L (carry L (carry L k)))
            | Some y \<Rightarrow> Array1 y))"
    by (cases Y) (simp_all add: trace_model Let_def)
  have b: "(let tr = get_trace (model_matrix L X Y) k
      in map site_name tr = [''beta'', ''sigma'', ''Y'']
         \<and> map is_observed tr = [False, False, Y \<noteq> None]
         \<and> site_value (tr ! 2) =
             (case Y of
                None \<Rightarrow> dist_sample L (site_fn (tr ! 2)) (subkey L (carry L (carry L k)))
              | Some y \<Rightarrow> Array1 y))"
    by (cases Y) (simp_all add: trace_model_matrix Let_def)
  have c: "(let tr = get_trace (model_sigma_b L Soil sb Y) k
      in map site_name tr = [''beta'', ''sigma'', ''Yield'']
         \<and> map is_observed tr = [False, False, Y \<noteq> None]
         \<and> site_value (tr ! 2) =
             (case Y of
                None \<Rightarrow> dist_sample L (site_fn (tr ! 2)) (subkey L (carry L (carry L k)))
              | Some y \<Rightarrow> Array1 y))"
    by (cases Y) (simp_all add: trace_model_sigma_b Let_def)
  have d: "(let tr = get_trace (model_trunc L sc Soil sb Y) k
      in map site_name tr = [''beta'', ''sigma'', ''Yield'']
         \<and> map is_observed tr = [False, False, Y \<noteq> None]
         \<and> site_value (tr ! 2) =
             (case Y of
                None \<Rightarrow> dist_sample L (site_fn (tr ! 2)) (subkey L (carry L (carry L k)))
              | Some y \<Rightarrow> Array1 y))"
    by (cases Y) (simp_all add: trace_model_trunc Let_def)
  from a b c d show ?thesis by blast
qed


text \<open>
  C6. In \<^verbatim>\<open>model_trunc\<close> the response site has a Student-t distribution with 5
  degrees of freedom, location Soil * beta and scale sigma, left-truncated at
  \<^verbatim>\<open>lowtrunc_scale\<close> = (0 - mean) / std of the yield, which is the standardized value of
  a zero yield.  Every response value, sampled or observed, is at or above this bound:
  a sampled one because the library's sampler of a left-truncated distribution stays at
  or above its bound, an observed one because the observations are the standardized
  values of yields that are not negative in natural units, with a positive std.
\<close>

theorem model_trunc_lower_bound:
  assumes sampler: "\<forall>d low key. all_ge low (dist_sample L (LeftTruncatedDistribution d low) key)"
      and std: "0 < Winterweizen_yield_std sc"
      and yields: "\<forall>ys. Yn = Some ys \<longrightarrow> (\<forall>n\<in>set ys. 0 \<le> n)"
  shows "(let Y = map_option
                    (map (\<lambda>n. standardize n (Winterweizen_yield_mean sc)
                                 (Winterweizen_yield_std sc))) Yn;
              tr = get_trace (model_trunc L sc Soil sb Y) k;
              beta = site_value (tr ! 0); sigma = site_value (tr ! 1)
          in map site_name tr = [''beta'', ''sigma'', ''Yield'']
             \<and> site_fn (tr ! 2) =
                 LeftTruncatedDistribution (StudentT (Scalar 5) (mul (Array1 Soil) beta) sigma)
                   (lowtrunc_scale sc)
             \<and> is_observed (tr ! 2) = (Yn \<noteq> None)
             \<and> all_ge (lowtrunc_scale sc) (site_value (tr ! 2)))
         \<and> lowtrunc_scale sc = (0 - Winterweizen_yield_mean sc) / Winterweizen_yield_std sc
         \<and> lowtrunc_scale sc
             = standardize 0 (Winterweizen_yield_mean sc) (Winterweizen_yield_std sc)"
proof -
  let ?m = "Winterweizen_yield_mean sc" and ?s = "Winterweizen_yield_std sc"
  have mono: "lowtrunc_scale sc \<le> standardize n ?m ?s" if "0 \<le> n" for n
    using std that by (simp add: lowtrunc_scale_def standardize_def field_simps)
  have a: "(let Y = map_option (map (\<lambda>n. standardize n ?m ?s)) Yn;
              tr = get_trace (model_trunc L sc Soil sb Y) k;
              beta = site_value (tr ! 0); sigma = site_value (tr ! 1)
          in map site_name tr = [''beta'', ''sigma'', ''Yield'']
             \<and> site_fn (tr ! 2) =
                 LeftTruncatedDistribution (StudentT (Scalar 5) (mul (Array1 Soil) beta) sigma)
                   (lowtrunc_scale sc)
             \<and> is_observed (tr ! 2) = (Yn \<noteq> None)
             \<and> all_ge (lowtrunc_scale sc) (site_value (tr ! 2)))"
  proof (cases Yn)
    case None
    then show ?thesis using sampler by (simp add: trace_model_trunc Let_def)
  next
    case (Some ys)
    then have "\<forall>n\<in>set ys. 0 \<le> n" using yields by simp
    then have "list_all (\<lambda>x. lowtrunc_scale sc \<le> x) (map (\<lambda>n. standardize n ?m ?s) ys)"
      by (simp add: list_all_iff mono)
    then show ?thesis using Some by (simp add: trace_model_trunc Let_def)
  qed
  have b: "lowtrunc_scale sc = (0 - ?m) / ?s"
    by (simp add: lowtrunc_scale_def)
  have c: "lowtrunc_scale sc = standardize 0 ?m ?s"
    by (simp add: lowtrunc_scale_def standardize_def)
  from a b c show ?thesis by blast
qed

theorem model_trunc_lower_bound_witness:
  "site_value (get_trace (model_trunc symbolic_library scale0 [-10, 2] 5 None) [(0, 1)] ! 2)
     = Array1 [- (25 / 4), 11]
   \<and> all_ge (lowtrunc_scale scale0)
       (site_value (get_trace (model_trunc symbolic_library scale0 [-10, 2] 5 None) [(0, 1)] ! 2))
   \<and> site_value (get_trace (model_trunc symbolic_library scale0 [-10, 2] 5
          (Some (map (\<lambda>n. standardize n 75 12) [0, 81]))) [(0, 1)] ! 2)
       = Array1 [- (25 / 4), 1 / 2]
   \<and> all_ge (lowtrunc_scale scale0)
       (site_value (get_trace (model_trunc symbolic_library scale0 [-10, 2] 5
          (Some (map (\<lambda>n. standardize n 75 12) [0, 81]))) [(0, 1)] ! 2))
   \<and> lowtrunc_scale scale0 = - (25 / 4)
   \<and> one_above (StudentT (Scalar 5) (Array1 [-50, 10]) (Scalar 1)) = Array1 [-49, 11]"
proof -
  have s: "0 < Winterweizen_yield_std scale0" by (simp add: scale0_def)
  have m: "Winterweizen_yield_mean scale0 = 75" "Winterweizen_yield_std scale0 = 12"
    by (simp_all add: scale0_def)
  have y0: "\<forall>ys. (None :: real list option) = Some ys \<longrightarrow> (\<forall>n\<in>set ys. 0 \<le> n)" by simp
  have y1: "\<forall>ys. Some [0, 81 :: real] = Some ys \<longrightarrow> (\<forall>n\<in>set ys. 0 \<le> n)" by simp
  have v0: "site_value (get_trace (model_trunc symbolic_library scale0 [-10, 2] 5 None) [(0, 1)] ! 2)
     = Array1 [- (25 / 4), 11]"
    by (simp add: trace_model_trunc Let_def symbolic_library_def lowtrunc_scale_def scale0_def)
  have v1: "site_value (get_trace (model_trunc symbolic_library scale0 [-10, 2] 5
          (Some (map (\<lambda>n. standardize n 75 12) [0, 81]))) [(0, 1)] ! 2)
       = Array1 [- (25 / 4), 1 / 2]"
    by (simp add: trace_model_trunc Let_def standardize_def)
  have l: "lowtrunc_scale scale0 = - (25 / 4)"
    by (simp add: lowtrunc_scale_def scale0_def)
  have u: "one_above (StudentT (Scalar 5) (Array1 [-50, 10]) (Scalar 1)) = Array1 [-49, 11]"
    by simp
  show ?thesis
    using model_trunc_lower_bound [OF symbolic_truncation s y0, of "[-10, 2]" 5 "[(0, 1)]"]
      model_trunc_lower_bound [OF symbolic_truncation s y1, of "[-10, 2]" 5 "[(0, 1)]"]
      v0 v1 l u
    by (simp add: Let_def m)
qed

text \<open>
  C1, as amended.  The fan of a sample collection is drawn from its \<^verbatim>\<open>beta\<close> draws
  with the indices 1 to 299: 299 lines, the draw at index 0 left out, and it needs at
  least 300 draws.  Each line plots the de-standardized grid against the
  de-standardized prediction divided by 10; for a scalar draw \<open>b\<close> the prediction at a
  grid value \<open>x\<close> is \<open>x * b\<close>.  The grid has exactly 100 values, evenly spaced from -5
  to 5.  Figure 2 takes the prior samples of a result unit and figure 3 its posterior
  samples, and for both result units of the script both fans have 299 lines.
\<close>

theorem regression_fan:
  "regression_lines sc Soil smp =
     (case map_of smp ''beta'' of
        None \<Rightarrow> None
      | Some betas \<Rightarrow>
          if 300 \<le> length betas
          then Some (map (\<lambda>i. regression_line sc Soil (betas ! i)) [1..<300]) else None)
   \<and> regression_line sc Soil (Scalar b) =
       (map (\<lambda>x. x * bodenzahl_std sc + bodenzahl_mean sc) x_range_scaled,
        map (\<lambda>x. (x * b * Winterweizen_yield_std sc + Winterweizen_yield_mean sc) / 10)
          x_range_scaled)
   \<and> x_range_scaled = map (\<lambda>j. - 5 + real j * (10 / 99)) [0..<100]
   \<and> length x_range_scaled = 100 \<and> hd x_range_scaled = - 5 \<and> last x_range_scaled = 5
   \<and> figure2_lines sc Soil res = regression_lines sc Soil (prior_samples res)
   \<and> figure3_lines sc Soil res = regression_lines sc Soil (post_samples res)
   \<and> (case script L (call_model L sc') v Soil Yield of
         Inl e \<Rightarrow> e = AssertionError
       | Inr lstRes \<Rightarrow>
           map (\<lambda>r. map_option length (figure2_lines sc Soil r)) lstRes = [Some 299, Some 299]
           \<and> map (\<lambda>r. map_option length (figure3_lines sc Soil r)) lstRes
               = [Some 299, Some 299])"
proof -
  have s: "(case script L (call_model L sc') v Soil Yield of
         Inl e \<Rightarrow> e = AssertionError
       | Inr lstRes \<Rightarrow>
           map (\<lambda>r. map_option length (figure2_lines sc Soil r)) lstRes = [Some 299, Some 299]
           \<and> map (\<lambda>r. map_option length (figure3_lines sc Soil r)) lstRes
               = [Some 299, Some 299])"
    by (simp add: script_unrolled figure2_lines_def figure3_lines_def figure2_count figure3_count)
  have f: "figure2_lines sc Soil res = regression_lines sc Soil (prior_samples res)"
    "figure3_lines sc Soil res = regression_lines sc Soil (post_samples res)"
    by (simp_all add: figure2_lines_def figure3_lines_def)
  from regression_lines_eq [of sc Soil smp] regression_line_Scalar [of sc Soil b]
    x_range_scaled_eq length_x_range_scaled x_range_scaled_ends f s
  show ?thesis by blast
qed

text \<open>
  The claim C1 as stated, that the first 300 draws are used, fails: changing the draw at
  index 0 leaves the fan unchanged, and a collection of 300 draws gives 299 lines.
\<close>

theorem first_draw_unused:
  "regression_lines scale0 [0] [(''beta'', Scalar 1 # replicate 299 (Scalar 0))]
     = regression_lines scale0 [0] [(''beta'', replicate 300 (Scalar 0))]
   \<and> map_option length (regression_lines scale0 [0] [(''beta'', replicate 300 (Scalar 0))])
       = Some 299"
proof -
  have "map (\<lambda>i. regression_line scale0 [0] ((Scalar 1 # replicate 299 (Scalar 0)) ! i)) [1..<300]
      = map (\<lambda>i. regression_line scale0 [0] (replicate 300 (Scalar 0) ! i)) [1..<300]"
    by (rule map_cong) (auto simp: nth_Cons')
  then show ?thesis
    unfolding regression_lines_eq by simp
qed

end
